theory Spec2Isabelle
  imports Main "HOL-Library.Sublist"
begin

section \<open>Python values that cross the cache layer\<close>

text \<open>
  The remote CRM answers with JSON, and the cache file is a JSON document, so the values
  that \<^verbatim>\<open>opp.py\<close> handles without knowing their shape are JSON values as Python's
  \<^verbatim>\<open>json\<close> module decodes them: \<^verbatim>\<open>None\<close>, booleans, numbers, strings, lists and
  dicts with string keys. Numbers are integers here (a float behaves like an integer in
  every branch below: it is truthy unless zero, has no \<^verbatim>\<open>get\<close>, no subscript and
  no membership test).
  A dict is an association list whose first binding of a key is the dict's value.
\<close>

datatype json =
    JNull
  | JBool bool
  | JInt int
  | JStr string
  | JArr "json list"
  | JObj "(string \<times> json) list"

text \<open>Python's truth value, as used by \<^verbatim>\<open>if x:\<close> and \<^verbatim>\<open>not x\<close>.\<close>

fun truthy :: "json \<Rightarrow> bool" where
  "truthy JNull = False"
| "truthy (JBool b) = b"
| "truthy (JInt n) = (n \<noteq> 0)"
| "truthy (JStr s) = (s \<noteq> [])"
| "truthy (JArr xs) = (xs \<noteq> [])"
| "truthy (JObj kvs) = (kvs \<noteq> [])"

datatype exn =
    KeyError
  | IndexError
  | TypeError
  | ValueError
  | AttributeError
  | JSONDecodeError
  | RequestException

text \<open>\<^verbatim>\<open>x.get(k, d)\<close>: only a dict has the method.\<close>

fun dict_get :: "json \<Rightarrow> string \<Rightarrow> json \<Rightarrow> exn + json" where
  "dict_get (JObj kvs) k d = Inr (case map_of kvs k of None \<Rightarrow> d | Some v \<Rightarrow> v)"
| "dict_get JNull k d = Inl AttributeError"
| "dict_get (JBool b) k d = Inl AttributeError"
| "dict_get (JInt n) k d = Inl AttributeError"
| "dict_get (JStr s) k d = Inl AttributeError"
| "dict_get (JArr xs) k d = Inl AttributeError"

text \<open>\<^verbatim>\<open>x[0]\<close>: the first element of a list, the first character of a string; a dict
  decoded from JSON has no key \<^verbatim>\<open>0\<close>; nothing else is subscriptable.\<close>

fun subscript0 :: "json \<Rightarrow> exn + json" where
  "subscript0 (JArr (x # xs)) = Inr x"
| "subscript0 (JArr []) = Inl IndexError"
| "subscript0 (JStr (c # cs)) = Inr (JStr [c])"
| "subscript0 (JStr []) = Inl IndexError"
| "subscript0 (JObj kvs) = Inl KeyError"
| "subscript0 JNull = Inl TypeError"
| "subscript0 (JBool b) = Inl TypeError"
| "subscript0 (JInt n) = Inl TypeError"

text \<open>\<^verbatim>\<open>x[k]\<close> with a string key: only a dict takes one.\<close>

fun subscript_key :: "json \<Rightarrow> string \<Rightarrow> exn + json" where
  "subscript_key (JObj kvs) k = (case map_of kvs k of None \<Rightarrow> Inl KeyError | Some v \<Rightarrow> Inr v)"
| "subscript_key (JArr xs) k = Inl TypeError"
| "subscript_key (JStr s) k = Inl TypeError"
| "subscript_key JNull k = Inl TypeError"
| "subscript_key (JBool b) k = Inl TypeError"
| "subscript_key (JInt n) k = Inl TypeError"

text \<open>Decimal digits of a number, as \<^verbatim>\<open>f"{response.status_code}"\<close> prints it.\<close>

fun str_of_nat :: "nat \<Rightarrow> string" where
  "str_of_nat n =
     (if n < 10 then [''0123456789'' ! n]
      else str_of_nat (n div 10) @ [''0123456789'' ! (n mod 10)])"

declare str_of_nat.simps [simp del]

definition str_of_int :: "int \<Rightarrow> string" where
  "str_of_int i = (if i < 0 then CHR ''-'' # str_of_nat (nat (- i)) else str_of_nat (nat i))"

text \<open>\<^verbatim>\<open>name.startswith(('Unknown', 'Not found', 'Error'))\<close>\<close>

definition startswith_failure :: "string \<Rightarrow> bool" where
  "startswith_failure name =
     (prefix ''Unknown'' name \<or> prefix ''Not found'' name \<or> prefix ''Error'' name)"

text \<open>\<^verbatim>\<open>sub in s\<close> on strings.\<close>

fun contains :: "string \<Rightarrow> string \<Rightarrow> bool" where
  "contains sub [] = (sub = [])"
| "contains sub (c # cs) = (prefix sub (c # cs) \<or> contains sub cs)"

text \<open>
  \<^verbatim>\<open>k in x\<close> for a string \<open>k\<close>: a key of a dict, an element of a list, a substring of a
  string; a number, a boolean and \<^verbatim>\<open>None\<close> are not iterable and raise \<^verbatim>\<open>TypeError\<close>.
\<close>

fun py_in :: "string \<Rightarrow> json \<Rightarrow> exn + bool" where
  "py_in k (JObj kvs) = Inr (map_of kvs k \<noteq> None)"
| "py_in k (JArr xs) = Inr (JStr k \<in> set xs)"
| "py_in k (JStr s) = Inr (contains k s)"
| "py_in k JNull = Inl TypeError"
| "py_in k (JBool b) = Inl TypeError"
| "py_in k (JInt n) = Inl TypeError"

section \<open>The world outside the process\<close>

text \<open>
  A \<^verbatim>\<open>datetime\<close> is a number of microseconds; it is naive (what \<^verbatim>\<open>datetime.now()\<close>
  returns) or carries a UTC offset. Comparing one of each raises \<^verbatim>\<open>TypeError\<close>.
\<close>

datatype pydatetime = Naive int | Aware int

record request =
  url :: string
  headers :: "(string \<times> string) list"
  params :: "(string \<times> json) list"

text \<open>
  What \<^verbatim>\<open>requests.get\<close> does: it raises, or it returns a response with a status code
  and a body; the body is \<open>None\<close> when \<^verbatim>\<open>response.json()\<close> raises.
\<close>

datatype http_result = Raised | Response int "json option"

text \<open>
  The library functions and the environment that the code calls and this development does
  not define: the remote's answer to a request (it may depend on the requests sent before),
  the wall clock (the value of the \<open>n\<close>-th call of \<^verbatim>\<open>datetime.now()\<close>),
  \<^verbatim>\<open>datetime.fromisoformat\<close> (\<open>None\<close> when it raises \<^verbatim>\<open>ValueError\<close>),
  \<^verbatim>\<open>datetime.isoformat\<close>, \<^verbatim>\<open>str\<close> on a value that is not a string, and whether the
  cache file can be written.
\<close>

record env =
  http_get :: "request list \<Rightarrow> request \<Rightarrow> http_result"
  clock :: "nat \<Rightarrow> int"
  fromisoformat :: "string \<Rightarrow> pydatetime option"
  isoformat :: "int \<Rightarrow> string"
  py_str :: "json \<Rightarrow> string"
  file_writable :: bool

section \<open>The entity cache\<close>

text \<open>
  The cache table maps a key to an entry. The code writes the dicts
  \<^verbatim>\<open>{'name': ..., 'timestamp': ...}\<close>, but the table is loaded from the cache file with
  \<^verbatim>\<open>json.load\<close>, so an entry is any JSON value.

  The state holds the attributes of an \<^verbatim>\<open>EntityCache\<close> object (\<open>access_token\<close>,
  \<open>api_url\<close>, \<open>cache_data\<close>), together with what its methods change outside the object:
  the requests sent so far, the number of clock readings so far, and the content of the
  cache file (\<open>None\<close> while there is no file). The last field is a history variable, which
  the code does not keep: the calls of \<^verbatim>\<open>_fetch_from_crm\<close> so far, each with its two
  arguments and with the cache table as it was when the call was made. It is there to state
  in which order the table is changed and the remote is asked.
\<close>

record state =
  access_token :: string
  api_url :: string
  cache_data :: "string \<rightharpoonup> json"
  sent :: "request list"
  clock_reads :: nat
  cache_file :: "(string \<rightharpoonup> json) option"
  fetch_calls :: "(string \<times> string \<times> (string \<rightharpoonup> json)) list"

definition CACHE_EXPIRY_HOURS :: int where
  "CACHE_EXPIRY_HOURS = 176"

text \<open>\<^verbatim>\<open>timedelta(hours=h)\<close> in microseconds.\<close>

definition timedelta_hours :: "int \<Rightarrow> int" where
  "timedelta_hours h = h * 3600 * 1000000"

definition now :: "env \<Rightarrow> state \<Rightarrow> int \<times> state" where
  "now e s = (clock e (clock_reads s), s\<lparr>clock_reads := Suc (clock_reads s)\<rparr>)"

definition requests_get :: "env \<Rightarrow> request \<Rightarrow> state \<Rightarrow> http_result \<times> state" where
  "requests_get e req s = (http_get e (sent s) req, s\<lparr>sent := sent s @ [req]\<rparr>)"

text \<open>\<^verbatim>\<open>_save_cache\<close>: a failed write is logged and nothing else happens.\<close>

definition save_cache :: "env \<Rightarrow> state \<Rightarrow> state" where
  "save_cache e s = (if file_writable e then s\<lparr>cache_file := Some (cache_data s)\<rparr> else s)"

subsection \<open>\<^verbatim>\<open>_is_cache_entry_valid\<close>\<close>

text \<open>The body of the \<^verbatim>\<open>try\<close> block: every exception it can raise is a result.\<close>

definition valid_try :: "env \<Rightarrow> json \<Rightarrow> state \<Rightarrow> (exn + bool) \<times> state" where
  "valid_try e cache_entry s =
     (case subscript_key cache_entry ''timestamp'' of
        Inl ex \<Rightarrow> (Inl ex, s)
      | Inr v \<Rightarrow>
          (case v of
             JStr ts \<Rightarrow>
               (case fromisoformat e ts of
                  None \<Rightarrow> (Inl ValueError, s)
                | Some saved_time \<Rightarrow>
                    (let (t, s1) = now e s;
                         expiry_time = t - timedelta_hours CACHE_EXPIRY_HOURS
                     in case saved_time of
                          Naive saved \<Rightarrow> (Inr (saved > expiry_time), s1)
                        | Aware saved \<Rightarrow> (Inl TypeError, s1)))
           | _ \<Rightarrow> (Inl TypeError, s)))"

text \<open>
  The test \<^verbatim>\<open>not cache_entry or 'timestamp' not in cache_entry\<close> stands before the
  \<^verbatim>\<open>try\<close>: what the membership test raises leaves the method. What the \<^verbatim>\<open>try\<close>
  block raises is caught and gives \<^verbatim>\<open>False\<close>.
\<close>

definition is_cache_entry_valid :: "env \<Rightarrow> json \<Rightarrow> state \<Rightarrow> (exn + bool) \<times> state" where
  "is_cache_entry_valid e cache_entry s =
     (if \<not> truthy cache_entry then (Inr False, s)
      else case py_in ''timestamp'' cache_entry of
             Inl ex \<Rightarrow> (Inl ex, s)
           | Inr present \<Rightarrow>
               if \<not> present then (Inr False, s)
               else (case valid_try e cache_entry s of
                       (Inl ex, s1) \<Rightarrow> (Inr False, s1)
                     | (Inr b, s1) \<Rightarrow> (Inr b, s1)))"

subsection \<open>\<^verbatim>\<open>_fetch_from_crm\<close>\<close>

record config =
  endpoint :: string
  name_field :: string

definition entity_configs :: "(string \<times> config) list" where
  "entity_configs =
     [(''account'', \<lparr>endpoint = ''accounts'', name_field = ''name''\<rparr>),
      (''contact'', \<lparr>endpoint = ''contacts'', name_field = ''fullname''\<rparr>),
      (''user'', \<lparr>endpoint = ''systemusers'', name_field = ''fullname''\<rparr>),
      (''division'', \<lparr>endpoint = ''businessunits'', name_field = ''name''\<rparr>),
      (''service'', \<lparr>endpoint = ''actum_proposedservices'', name_field = ''actum_name''\<rparr>)]"

definition auth_headers :: "state \<Rightarrow> (string \<times> string) list" where
  "auth_headers s =
     [(''Authorization'', ''Bearer '' @ access_token s), (''Accept'', ''application/json'')]"

text \<open>The fallback strings: \<^verbatim>\<open>f"{reason} ({entity_id[:8]}...)"\<close>.\<close>

definition fallback :: "string \<Rightarrow> string \<Rightarrow> string" where
  "fallback reason entity_id = reason @ '' ('' @ take 8 entity_id @ ''...)''"

text \<open>The body of the \<^verbatim>\<open>try\<close> block, given what \<^verbatim>\<open>requests.get\<close> did.\<close>

definition fetch_try :: "config \<Rightarrow> string \<Rightarrow> http_result \<Rightarrow> exn + json" where
  "fetch_try cfg entity_id r =
     (case r of
        Raised \<Rightarrow> Inl RequestException
      | Response status_code body \<Rightarrow>
          if status_code = 200 then
            (case body of
               None \<Rightarrow> Inl JSONDecodeError
             | Some data \<Rightarrow> dict_get data (name_field cfg) (JStr (fallback ''No name'' entity_id)))
          else if status_code = 404 then Inr (JStr (fallback ''Not found'' entity_id))
          else Inr (JStr (fallback (''Error '' @ str_of_int status_code) entity_id)))"

definition fetch_request :: "state \<Rightarrow> config \<Rightarrow> string \<Rightarrow> request" where
  "fetch_request s cfg entity_id =
     \<lparr>url = api_url s @ ''/'' @ endpoint cfg @ ''('' @ entity_id @ '')'',
      headers = auth_headers s,
      params = [(''$select'', JStr (name_field cfg))]\<rparr>"

text \<open>The call is entered in the history first; the rest is the method's body.\<close>

definition fetch_from_crm :: "env \<Rightarrow> string \<Rightarrow> string \<Rightarrow> state \<Rightarrow> json \<times> state" where
  "fetch_from_crm e entity_type entity_id s =
     (let s0 = s\<lparr>fetch_calls := fetch_calls s @ [(entity_type, entity_id, cache_data s)]\<rparr>
      in case map_of entity_configs entity_type of
           None \<Rightarrow> (JStr (''Unknown type ('' @ entity_type @ '')''), s0)
         | Some cfg \<Rightarrow>
             (let (r, s1) = requests_get e (fetch_request s0 cfg entity_id) s0
              in case fetch_try cfg entity_id r of
                   Inl ex \<Rightarrow> (JStr (fallback ''Error'' entity_id), s1)
                 | Inr name \<Rightarrow> (name, s1)))"

subsection \<open>\<^verbatim>\<open>entity_lookup\<close>\<close>

definition cache_key_of :: "string \<Rightarrow> string \<Rightarrow> string" where
  "cache_key_of entity_type entity_id = entity_type @ ''_'' @ entity_id"

text \<open>Storing a name under a key with the current time, then saving the file.\<close>

definition cache_store :: "env \<Rightarrow> string \<Rightarrow> json \<Rightarrow> state \<Rightarrow> state" where
  "cache_store e cache_key name s =
     (let (t, s1) = now e s;
          s2 = s1\<lparr>cache_data := (cache_data s1)
                  (cache_key \<mapsto> JObj [(''name'', name),
                                       (''timestamp'', JStr (isoformat e t))])\<rparr>
      in save_cache e s2)"

text \<open>The second half of \<^verbatim>\<open>entity_lookup\<close>, from \<^verbatim>\<open># Fetch from CRM\<close> on.\<close>

definition fetch_and_store :: "env \<Rightarrow> string \<Rightarrow> string \<Rightarrow> state \<Rightarrow> json \<times> state" where
  "fetch_and_store e entity_type entity_id s =
     (let (name, s1) = fetch_from_crm e entity_type entity_id s
      in (name, cache_store e (cache_key_of entity_type entity_id) name s1))"

text \<open>
  An identifier is a string or absent (\<^verbatim>\<open>None\<close>). What the validity check raises
  leaves the method, and so does the \<^verbatim>\<open>KeyError\<close> of a valid entry without a
  \<^verbatim>\<open>'name'\<close>.
\<close>

definition entity_lookup ::
  "env \<Rightarrow> string \<Rightarrow> string option \<Rightarrow> state \<Rightarrow> (exn + json) \<times> state" where
  "entity_lookup e entity_type entity_id_opt s =
     (case entity_id_opt of
        None \<Rightarrow> (Inr (JStr ''N/A''), s)
      | Some entity_id \<Rightarrow>
          if entity_id = [] then (Inr (JStr ''N/A''), s)
          else
            (let cache_key = cache_key_of entity_type entity_id
             in case cache_data s cache_key of
                  Some cache_entry \<Rightarrow>
                    (case is_cache_entry_valid e cache_entry s of
                       (Inl ex, s1) \<Rightarrow> (Inl ex, s1)
                     | (Inr valid, s1) \<Rightarrow>
                         if valid then
                           (case subscript_key cache_entry ''name'' of
                              Inl ex \<Rightarrow> (Inl ex, s1)
                            | Inr name \<Rightarrow> (Inr name, s1))
                         else
                           (let s2 = s1\<lparr>cache_data := (cache_data s1)(cache_key := None)\<rparr>;
                                (name, s3) = fetch_and_store e entity_type entity_id s2
                            in (Inr name, s3)))
                | None \<Rightarrow>
                    (let (name, s3) = fetch_and_store e entity_type entity_id s
                     in (Inr name, s3))))"

subsection \<open>\<^verbatim>\<open>get_customer_name\<close>\<close>

text \<open>A truthy name that is not a string has no \<^verbatim>\<open>startswith\<close>.\<close>

definition get_customer_name ::
  "env \<Rightarrow> string option \<Rightarrow> state \<Rightarrow> (exn + json) \<times> state" where
  "get_customer_name e customer_id s =
     (if customer_id = None \<or> customer_id = Some [] then (Inr (JStr ''N/A''), s)
      else case entity_lookup e ''account'' customer_id s of
             (Inl ex, s1) \<Rightarrow> (Inl ex, s1)
           | (Inr name, s1) \<Rightarrow>
               if \<not> truthy name then entity_lookup e ''contact'' customer_id s1
               else (case name of
                       JStr n \<Rightarrow>
                         if \<not> startswith_failure n then (Inr name, s1)
                         else entity_lookup e ''contact'' customer_id s1
                     | _ \<Rightarrow> (Inl AttributeError, s1)))"

subsection \<open>\<^verbatim>\<open>reverse_lookup\<close>\<close>

record rconfig = config +
  id_field :: string

definition reverse_configs :: "(string \<times> rconfig) list" where
  "reverse_configs =
     [(''user'', \<lparr>endpoint = ''systemusers'', name_field = ''fullname'',
                  id_field = ''systemuserid''\<rparr>),
      (''division'', \<lparr>endpoint = ''businessunits'', name_field = ''name'',
                      id_field = ''businessunitid''\<rparr>)]"

definition quote :: string where
  "quote = [CHR 0x27]"

text \<open>
  The two filter expressions, \<^verbatim>\<open>f"{name_field} eq '{search_name}'"\<close> and
  \<^verbatim>\<open>f"contains({name_field}, '{search_name}')"\<close>, and the list the loop runs over.
\<close>

definition exact_filter :: "rconfig \<Rightarrow> string \<Rightarrow> string" where
  "exact_filter cfg search_name = name_field cfg @ '' eq '' @ quote @ search_name @ quote"

definition partial_filter :: "rconfig \<Rightarrow> string \<Rightarrow> string" where
  "partial_filter cfg search_name =
     ''contains('' @ name_field cfg @ '', '' @ quote @ search_name @ quote @ '')''"

definition filters :: "rconfig \<Rightarrow> string \<Rightarrow> (string \<times> string) list" where
  "filters cfg search_name =
     [(''exact'', exact_filter cfg search_name),
      (''partial'', partial_filter cfg search_name)]"

definition search_request :: "state \<Rightarrow> rconfig \<Rightarrow> string \<Rightarrow> request" where
  "search_request s cfg filter_expr =
     \<lparr>url = api_url s @ ''/'' @ endpoint cfg,
      headers = auth_headers s,
      params = [(''$filter'', JStr filter_expr),
                (''$select'', JStr (id_field cfg @ '','' @ name_field cfg)),
                (''$top'', JInt 1)]\<rparr>"

text \<open>
  The \<^verbatim>\<open>try\<close> block of one attempt up to the cache write, given what
  \<^verbatim>\<open>requests.get\<close> did: an exception, no result (the loop goes on), or the identifier
  and the name of the first result.
\<close>

definition search_try :: "rconfig \<Rightarrow> http_result \<Rightarrow> exn + (json \<times> json) option" where
  "search_try cfg r =
     (case r of
        Raised \<Rightarrow> Inl RequestException
      | Response status_code body \<Rightarrow>
          if status_code = 200 then
            (case body of
               None \<Rightarrow> Inl JSONDecodeError
             | Some data \<Rightarrow>
                 (case dict_get data ''value'' (JArr []) of
                    Inl ex \<Rightarrow> Inl ex
                  | Inr results \<Rightarrow>
                      if truthy results then
                        (case subscript0 results of
                           Inl ex \<Rightarrow> Inl ex
                         | Inr result \<Rightarrow>
                             (case dict_get result (id_field cfg) JNull of
                                Inl ex \<Rightarrow> Inl ex
                              | Inr entity_id \<Rightarrow>
                                  (case dict_get result (name_field cfg) JNull of
                                     Inl ex \<Rightarrow> Inl ex
                                   | Inr entity_name \<Rightarrow>
                                       if truthy entity_id
                                       then Inr (Some (entity_id, entity_name))
                                       else Inr None)))
                      else Inr None))
          else Inr None)"

text \<open>\<^verbatim>\<open>f"{v}"\<close>: a string as it is, anything else through \<^verbatim>\<open>str\<close>.\<close>

definition format_value :: "env \<Rightarrow> json \<Rightarrow> string" where
  "format_value e v = (case v of JStr s \<Rightarrow> s | _ \<Rightarrow> py_str e v)"

text \<open>
  The \<^verbatim>\<open>for\<close> loop over the filters: an exception breaks out of it, and after the loop
  the method returns \<^verbatim>\<open>None\<close>.
\<close>

fun reverse_lookup_loop ::
  "env \<Rightarrow> string \<Rightarrow> rconfig \<Rightarrow> (string \<times> string) list \<Rightarrow> state \<Rightarrow> json option \<times> state" where
  "reverse_lookup_loop e entity_type cfg [] s = (None, s)"
| "reverse_lookup_loop e entity_type cfg (f # rest) s =
     (let (r, s1) = requests_get e (search_request s cfg (snd f)) s
      in case search_try cfg r of
           Inl ex \<Rightarrow> (None, s1)
         | Inr None \<Rightarrow> reverse_lookup_loop e entity_type cfg rest s1
         | Inr (Some (entity_id, entity_name)) \<Rightarrow>
             (Some entity_id,
              cache_store e (cache_key_of entity_type (format_value e entity_id))
                entity_name s1))"

definition reverse_lookup :: "env \<Rightarrow> string \<Rightarrow> string \<Rightarrow> state \<Rightarrow> json option \<times> state" where
  "reverse_lookup e entity_type search_name s =
     (if search_name = [] then (None, s)
      else case map_of reverse_configs entity_type of
             None \<Rightarrow> (None, s)
           | Some cfg \<Rightarrow> reverse_lookup_loop e entity_type cfg (filters cfg search_name) s)"

section \<open>Concrete runs\<close>

text \<open>
  A small stand-in for the libraries and the remote, to run the definitions above on
  concrete inputs: a \<^verbatim>\<open>datetime\<close> is printed as its number of microseconds in decimal
  and parsed back from decimal digits, the clock starts at 1000000000000 microseconds and
  advances one second per reading.
\<close>

definition demo_isoformat :: "int \<Rightarrow> string" where
  "demo_isoformat t = str_of_int t"

fun parse_digits :: "nat \<Rightarrow> string \<Rightarrow> nat option" where
  "parse_digits a [] = Some a"
| "parse_digits a (c # cs) =
     (if 48 \<le> (of_char c :: nat) \<and> (of_char c :: nat) \<le> 57
      then parse_digits (10 * a + (of_char c - 48)) cs else None)"

definition demo_fromisoformat :: "string \<Rightarrow> pydatetime option" where
  "demo_fromisoformat ts =
     (if ts = [] then None
      else case parse_digits 0 ts of None \<Rightarrow> None | Some n \<Rightarrow> Some (Naive (int n)))"

definition demo_clock :: "nat \<Rightarrow> int" where
  "demo_clock n = 1000000000000 + 1000000 * int n"

definition demo_py_str :: "json \<Rightarrow> string" where
  "demo_py_str v = ''<value>''"

definition demo_env :: "(request list \<Rightarrow> request \<Rightarrow> http_result) \<Rightarrow> env" where
  "demo_env remote =
     \<lparr>http_get = remote, clock = demo_clock,
      fromisoformat = demo_fromisoformat, isoformat = demo_isoformat,
      py_str = demo_py_str, file_writable = True\<rparr>"

definition demo_state :: state where
  "demo_state =
     \<lparr>access_token = ''token'', api_url = ''https://crm.example/api/data/v9.1'',
      cache_data = Map.empty, sent = [], clock_reads = 0, cache_file = None,
      fetch_calls = []\<rparr>"

text \<open>A remote that cannot be reached, and one that knows no record.\<close>

definition remote_down :: "request list \<Rightarrow> request \<Rightarrow> http_result" where
  "remote_down h req = Raised"

definition remote_404 :: "request list \<Rightarrow> request \<Rightarrow> http_result" where
  "remote_404 h req = Response 404 None"

text \<open>A remote that is out of service, and one that answers with a page of HTML.\<close>

definition remote_503 :: "request list \<Rightarrow> request \<Rightarrow> http_result" where
  "remote_503 h req = Response 503 None"

definition remote_html :: "request list \<Rightarrow> request \<Rightarrow> http_result" where
  "remote_html h req = Response 200 None"

text \<open>A table with one entry for the user \<^verbatim>\<open>3f9a2c1d-0000-4e6b\<close>.\<close>

definition stale_entry :: "string \<Rightarrow> json" where
  "stale_entry ts = JObj [(''name'', JStr ''Old Name''), (''timestamp'', JStr ts)]"

definition cached_state :: "json \<Rightarrow> state" where
  "cached_state ce = demo_state\<lparr>cache_data := [''user_3f9a2c1d-0000-4e6b'' \<mapsto> ce]\<rparr>"

text \<open>Remotes for the customer \<^verbatim>\<open>c-42\<close>: an account whose name is empty, one whose
  name is null, records without any name field, and an account named Acme.\<close>

definition remote_unnamed_account :: "request list \<Rightarrow> request \<Rightarrow> http_result" where
  "remote_unnamed_account h req =
     (if url req = ''https://crm.example/api/data/v9.1/accounts(c-42)''
      then Response 200 (Some (JObj [(''name'', JStr '''')]))
      else Response 200 (Some (JObj [(''fullname'', JStr ''Bob'')])))"

definition remote_null_account :: "request list \<Rightarrow> request \<Rightarrow> http_result" where
  "remote_null_account h req =
     (if url req = ''https://crm.example/api/data/v9.1/accounts(c-42)''
      then Response 200 (Some (JObj [(''name'', JNull)]))
      else Response 200 (Some (JObj [(''fullname'', JStr ''Bob'')])))"

definition remote_no_fields :: "request list \<Rightarrow> request \<Rightarrow> http_result" where
  "remote_no_fields h req = Response 200 (Some (JObj [(''@odata.etag'', JStr ''W/1'')]))"

definition remote_acme :: "request list \<Rightarrow> request \<Rightarrow> http_result" where
  "remote_acme h req =
     (if url req = ''https://crm.example/api/data/v9.1/accounts(c-42)''
      then Response 200 (Some (JObj [(''name'', JStr ''Acme'')]))
      else Response 404 None)"

text \<open>The configuration of \<^verbatim>\<open>user\<close> in \<^verbatim>\<open>reverse_lookup\<close>.\<close>

definition user_cfg :: rconfig where
  "user_cfg = \<lparr>endpoint = ''systemusers'', name_field = ''fullname'',
               id_field = ''systemuserid''\<rparr>"

text \<open>
  Remotes for the reverse lookup: one that has a user named exactly Jane Doe and another
  user for any partial match, one that answers the first request with status 500 and the
  next with a match, and one that finds nothing and then cannot be reached.
\<close>

definition jane_doe :: json where
  "jane_doe = JObj [(''value'', JArr [JObj [(''systemuserid'', JStr ''u-1''),
                                            (''fullname'', JStr ''Jane Doe'')]])]"

definition jane_doering :: json where
  "jane_doering = JObj [(''value'', JArr [JObj [(''systemuserid'', JStr ''u-2''),
                                                (''fullname'', JStr ''Jane Doering'')]])]"

definition no_users :: json where
  "no_users = JObj [(''value'', JArr [])]"

definition filter_of :: "request \<Rightarrow> string" where
  "filter_of req = (case map_of (params req) ''$filter'' of Some (JStr f) \<Rightarrow> f | _ \<Rightarrow> [])"

definition remote_users :: "request list \<Rightarrow> request \<Rightarrow> http_result" where
  "remote_users h req =
     (if filter_of req = ''fullname eq '' @ quote @ ''Jane Doe'' @ quote
      then Response 200 (Some jane_doe)
      else if prefix ''contains('' (filter_of req) then Response 200 (Some jane_doering)
      else Response 200 (Some no_users))"

definition remote_500_then_match :: "request list \<Rightarrow> request \<Rightarrow> http_result" where
  "remote_500_then_match h req =
     (if h = [] then Response 500 None else Response 200 (Some jane_doering))"

definition remote_flaky :: "request list \<Rightarrow> request \<Rightarrow> http_result" where
  "remote_flaky h req = (if h = [] then Response 200 (Some no_users) else Raised)"

section \<open>Facts used to run and to reason about the model\<close>

lemmas run_defs = Let_def
  demo_env_def demo_state_def demo_clock_def demo_py_str_def demo_isoformat_def
  demo_fromisoformat_def remote_down_def remote_404_def remote_503_def remote_html_def
  fetch_from_crm_def entity_configs_def fetch_request_def fetch_try_def fallback_def
  requests_get_def auth_headers_def now_def save_cache_def cache_store_def cache_key_of_def
  fetch_and_store_def entity_lookup_def get_customer_name_def startswith_failure_def
  is_cache_entry_valid_def valid_try_def timedelta_hours_def CACHE_EXPIRY_HOURS_def
  reverse_lookup_def reverse_configs_def filters_def exact_filter_def partial_filter_def
  search_request_def search_try_def
  format_value_def quote_def str_of_int_def str_of_nat.simps

lemma prefix_contains: "prefix sub ys \<Longrightarrow> contains sub ys"
  by (cases ys) auto

lemma contains_append: "contains sub (a @ sub @ b)"
  by (induction a) (auto simp: prefix_contains)

lemma contains_fallback: "contains (take 8 entity_id) (fallback reason entity_id)"
  unfolding fallback_def
  using contains_append [of "take 8 entity_id" "reason @ '' (''" "''...)''"] by simp

lemma fetch_request_fetch_calls [simp]:
  "fetch_request (s\<lparr>fetch_calls := c\<rparr>) cfg entity_id = fetch_request s cfg entity_id"
  by (simp add: fetch_request_def auth_headers_def)

lemma fetch_from_crm_unknown:
  "map_of entity_configs entity_type = None \<Longrightarrow>
   fetch_from_crm e entity_type entity_id s
     = (JStr (''Unknown type ('' @ entity_type @ '')''),
        s\<lparr>fetch_calls := fetch_calls s @ [(entity_type, entity_id, cache_data s)]\<rparr>)"
  by (simp add: fetch_from_crm_def)

lemma fetch_from_crm_known:
  "map_of entity_configs entity_type = Some cfg \<Longrightarrow>
   fetch_from_crm e entity_type entity_id s
     = (case fetch_try cfg entity_id (http_get e (sent s) (fetch_request s cfg entity_id)) of
          Inl ex \<Rightarrow> JStr (fallback ''Error'' entity_id)
        | Inr name \<Rightarrow> name,
        s\<lparr>fetch_calls := fetch_calls s @ [(entity_type, entity_id, cache_data s)],
          sent := sent s @ [fetch_request s cfg entity_id]\<rparr>)"
  by (simp add: fetch_from_crm_def requests_get_def split: sum.splits)

section \<open>The remote fetch and its fallback strings\<close>

text \<open>
  C1 (as amended). \<^verbatim>\<open>_fetch_from_crm\<close> returns a value and never an exception. For a type
  outside the five configured ones it returns \<^verbatim>\<open>Unknown type (<entity_type>)\<close>, which
  embeds the entity type and not the identifier, and sends no request. For a configured
  type it sends exactly one request, and each failure has its own fallback
  \<^verbatim>\<open><reason> (<first 8 characters of the id>...)\<close>: the reason is \<^verbatim>\<open>Error\<close> when the
  request raises or the body of a 200 response is not JSON or not a dict, \<^verbatim>\<open>No name\<close>
  when the dict of a 200 response lacks the name field, \<^verbatim>\<open>Not found\<close> for status 404,
  and \<^verbatim>\<open>Error <status>\<close> with the status of the response for any other status. Each of
  these fallbacks contains the 8-character prefix of the identifier. A 200 response whose
  dict has the name field gives the value of that field.
\<close>

theorem fetch_fallback:
  "(map_of entity_configs entity_type = None \<longrightarrow>
      fetch_from_crm e entity_type entity_id s
        = (JStr (''Unknown type ('' @ entity_type @ '')''),
           s\<lparr>fetch_calls := fetch_calls s @ [(entity_type, entity_id, cache_data s)]\<rparr>))
   \<and> (map_of entity_configs entity_type = Some cfg \<longrightarrow>
        (let req = fetch_request s cfg entity_id;
             r = http_get e (sent s) req;
             res = fetch_from_crm e entity_type entity_id s
         in snd res = s\<lparr>fetch_calls := fetch_calls s @ [(entity_type, entity_id, cache_data s)],
                         sent := sent s @ [req]\<rparr>
            \<and> (r = Raised \<longrightarrow> fst res = JStr (fallback ''Error'' entity_id))
            \<and> (r = Response 200 None \<longrightarrow> fst res = JStr (fallback ''Error'' entity_id))
            \<and> (\<forall>data. r = Response 200 (Some data) \<and> (\<forall>kvs. data \<noteq> JObj kvs) \<longrightarrow>
                  fst res = JStr (fallback ''Error'' entity_id))
            \<and> (\<forall>kvs. r = Response 200 (Some (JObj kvs)) \<and> map_of kvs (name_field cfg) = None \<longrightarrow>
                  fst res = JStr (fallback ''No name'' entity_id))
            \<and> (\<forall>kvs v. r = Response 200 (Some (JObj kvs))
                    \<and> map_of kvs (name_field cfg) = Some v \<longrightarrow> fst res = v)
            \<and> (\<forall>body. r = Response 404 body \<longrightarrow>
                  fst res = JStr (fallback ''Not found'' entity_id))
            \<and> (\<forall>code body. r = Response code body \<and> code \<noteq> 200 \<and> code \<noteq> 404 \<longrightarrow>
                  fst res = JStr (fallback (''Error '' @ str_of_int code) entity_id))))
   \<and> (\<forall>reason. fallback reason entity_id = reason @ '' ('' @ take 8 entity_id @ ''...)''
                \<and> contains (take 8 entity_id) (fallback reason entity_id))"
proof (intro conjI impI allI)
  assume "map_of entity_configs entity_type = None"
  then show "fetch_from_crm e entity_type entity_id s
        = (JStr (''Unknown type ('' @ entity_type @ '')''),
           s\<lparr>fetch_calls := fetch_calls s @ [(entity_type, entity_id, cache_data s)]\<rparr>)"
    by (rule fetch_from_crm_unknown)
next
  fix reason
  show "fallback reason entity_id = reason @ '' ('' @ take 8 entity_id @ ''...)''"
    by (simp add: fallback_def)
  show "contains (take 8 entity_id) (fallback reason entity_id)"
    by (rule contains_fallback)
next
  assume k: "map_of entity_configs entity_type = Some cfg"
  define req where "req = fetch_request s cfg entity_id"
  define r where "r = http_get e (sent s) req"
  define res where "res = fetch_from_crm e entity_type entity_id s"
  have res: "res = (case fetch_try cfg entity_id r of
          Inl ex \<Rightarrow> JStr (fallback ''Error'' entity_id)
        | Inr name \<Rightarrow> name,
        s\<lparr>fetch_calls := fetch_calls s @ [(entity_type, entity_id, cache_data s)],
          sent := sent s @ [req]\<rparr>)"
    unfolding res_def r_def req_def using k by (rule fetch_from_crm_known)
  have st: "snd res = s\<lparr>fetch_calls := fetch_calls s @ [(entity_type, entity_id, cache_data s)],
                         sent := sent s @ [req]\<rparr>"
    by (simp add: res)
  have c1: "r = Raised \<longrightarrow> fst res = JStr (fallback ''Error'' entity_id)"
    by (simp add: res fetch_try_def)
  have c2: "r = Response 200 None \<longrightarrow> fst res = JStr (fallback ''Error'' entity_id)"
    by (simp add: res fetch_try_def)
  have c3: "\<forall>data. r = Response 200 (Some data) \<and> (\<forall>kvs. data \<noteq> JObj kvs) \<longrightarrow>
                  fst res = JStr (fallback ''Error'' entity_id)"
  proof (intro allI impI)
    fix data
    assume d: "r = Response 200 (Some data) \<and> (\<forall>kvs. data \<noteq> JObj kvs)"
    then show "fst res = JStr (fallback ''Error'' entity_id)"
      by (cases data) (simp_all add: res fetch_try_def)
  qed
  have c4: "\<forall>kvs. r = Response 200 (Some (JObj kvs)) \<and> map_of kvs (name_field cfg) = None \<longrightarrow>
                  fst res = JStr (fallback ''No name'' entity_id)"
    by (simp add: res fetch_try_def)
  have c5: "\<forall>kvs v. r = Response 200 (Some (JObj kvs))
                    \<and> map_of kvs (name_field cfg) = Some v \<longrightarrow> fst res = v"
    by (simp add: res fetch_try_def)
  have c6: "\<forall>body. r = Response 404 body \<longrightarrow>
                  fst res = JStr (fallback ''Not found'' entity_id)"
    by (simp add: res fetch_try_def)
  have c7: "\<forall>code body. r = Response code body \<and> code \<noteq> 200 \<and> code \<noteq> 404 \<longrightarrow>
                  fst res = JStr (fallback (''Error '' @ str_of_int code) entity_id)"
    by (simp add: res fetch_try_def)
  show "let req = fetch_request s cfg entity_id;
             r = http_get e (sent s) req;
             res = fetch_from_crm e entity_type entity_id s
         in snd res = s\<lparr>fetch_calls := fetch_calls s @ [(entity_type, entity_id, cache_data s)],
                         sent := sent s @ [req]\<rparr>
            \<and> (r = Raised \<longrightarrow> fst res = JStr (fallback ''Error'' entity_id))
            \<and> (r = Response 200 None \<longrightarrow> fst res = JStr (fallback ''Error'' entity_id))
            \<and> (\<forall>data. r = Response 200 (Some data) \<and> (\<forall>kvs. data \<noteq> JObj kvs) \<longrightarrow>
                  fst res = JStr (fallback ''Error'' entity_id))
            \<and> (\<forall>kvs. r = Response 200 (Some (JObj kvs)) \<and> map_of kvs (name_field cfg) = None \<longrightarrow>
                  fst res = JStr (fallback ''No name'' entity_id))
            \<and> (\<forall>kvs v. r = Response 200 (Some (JObj kvs))
                    \<and> map_of kvs (name_field cfg) = Some v \<longrightarrow> fst res = v)
            \<and> (\<forall>body. r = Response 404 body \<longrightarrow>
                  fst res = JStr (fallback ''Not found'' entity_id))
            \<and> (\<forall>code body. r = Response code body \<and> code \<noteq> 200 \<and> code \<noteq> 404 \<longrightarrow>
                  fst res = JStr (fallback (''Error '' @ str_of_int code) entity_id))"
    unfolding Let_def
    unfolding req_def [symmetric]
    unfolding r_def [symmetric] res_def [symmetric]
    using st c1 c2 c3 c4 c5 c6 c7 by blast
qed

theorem fetch_fallback_witness:
  "fst (fetch_from_crm (demo_env remote_404) ''widget'' ''3f9a2c1d-0000-4e6b'' demo_state)
     = JStr ''Unknown type (widget)''
   \<and> sent (snd (fetch_from_crm (demo_env remote_404) ''widget'' ''3f9a2c1d-0000-4e6b''
                  demo_state)) = []
   \<and> fst (fetch_from_crm (demo_env remote_404) ''account'' ''3f9a2c1d-0000-4e6b'' demo_state)
       = JStr ''Not found (3f9a2c1d...)''
   \<and> fst (fetch_from_crm (demo_env remote_503) ''account'' ''3f9a2c1d-0000-4e6b'' demo_state)
       = JStr ''Error 503 (3f9a2c1d...)''
   \<and> fst (fetch_from_crm (demo_env remote_down) ''account'' ''3f9a2c1d-0000-4e6b'' demo_state)
       = JStr ''Error (3f9a2c1d...)''
   \<and> fst (fetch_from_crm (demo_env remote_html) ''account'' ''3f9a2c1d-0000-4e6b'' demo_state)
       = JStr ''Error (3f9a2c1d...)''
   \<and> fst (fetch_from_crm (demo_env remote_no_fields) ''account'' ''3f9a2c1d-0000-4e6b''
            demo_state)
       = JStr ''No name (3f9a2c1d...)''
   \<and> sent (snd (fetch_from_crm (demo_env remote_503) ''account'' ''3f9a2c1d-0000-4e6b''
                  demo_state))
       = [fetch_request demo_state \<lparr>endpoint = ''accounts'', name_field = ''name''\<rparr>
            ''3f9a2c1d-0000-4e6b'']"
  using fetch_fallback [where entity_type = "''widget''" and e = "demo_env remote_404"
      and entity_id = "''3f9a2c1d-0000-4e6b''" and s = demo_state]
    fetch_fallback [where entity_type = "''account''"
      and cfg = "\<lparr>endpoint = ''accounts'', name_field = ''name''\<rparr>"
      and e = "demo_env remote_404" and s = demo_state and entity_id = "''3f9a2c1d-0000-4e6b''"]
    fetch_fallback [where entity_type = "''account''"
      and cfg = "\<lparr>endpoint = ''accounts'', name_field = ''name''\<rparr>"
      and e = "demo_env remote_503" and s = demo_state and entity_id = "''3f9a2c1d-0000-4e6b''"]
  by (simp add: run_defs remote_no_fields_def)

text \<open>
  C1 as stated fails for the unknown-type fallback: for the type \<^verbatim>\<open>widget\<close> and the
  identifier \<^verbatim>\<open>3f9a2c1d-0000-4e6b\<close> the fallback is \<^verbatim>\<open>Unknown type (widget)\<close>, which
  does not contain \<^verbatim>\<open>3f9a2c1d\<close>.
\<close>

theorem unknown_type_counterexample:
  "fst (fetch_from_crm (demo_env remote_down) ''widget'' ''3f9a2c1d-0000-4e6b'' demo_state)
     = JStr ''Unknown type (widget)''
   \<and> \<not> contains (take 8 ''3f9a2c1d-0000-4e6b'') ''Unknown type (widget)''"
  by (simp add: run_defs)

section \<open>Empty input\<close>

text \<open>
  C7. For every entity type, \<^verbatim>\<open>entity_lookup\<close> with an absent or empty identifier returns
  \<^verbatim>\<open>'N/A'\<close>, and so does \<^verbatim>\<open>get_customer_name\<close> with an absent or empty customer
  identifier; the state is returned as it was: no request is sent and the cache table is
  unchanged.
\<close>

theorem empty_id_returns_NA:
  "entity_lookup e entity_type None s = (Inr (JStr ''N/A''), s)
   \<and> entity_lookup e entity_type (Some []) s = (Inr (JStr ''N/A''), s)
   \<and> get_customer_name e None s = (Inr (JStr ''N/A''), s)
   \<and> get_customer_name e (Some []) s = (Inr (JStr ''N/A''), s)"
  by (simp add: entity_lookup_def get_customer_name_def)

section \<open>Reverse lookup: unsupported types and empty names\<close>

lemma map_of_reverse_configs_None:
  "entity_type \<noteq> ''user'' \<Longrightarrow> entity_type \<noteq> ''division'' \<Longrightarrow> map_of reverse_configs entity_type = None"
  by (simp add: reverse_configs_def)

text \<open>
  C8. For every entity type other than \<^verbatim>\<open>user\<close> and \<^verbatim>\<open>division\<close> and every search
  name, \<^verbatim>\<open>reverse_lookup\<close> returns \<^verbatim>\<open>None\<close> and leaves the state as it was (no request
  is sent); for every entity type, an empty search name does the same.
\<close>

theorem reverse_lookup_unsupported:
  "(entity_type \<noteq> ''user'' \<and> entity_type \<noteq> ''division''
      \<longrightarrow> reverse_lookup e entity_type search_name s = (None, s))
   \<and> reverse_lookup e entity_type [] s = (None, s)"
  by (simp add: reverse_lookup_def map_of_reverse_configs_None)

theorem reverse_lookup_unsupported_witness:
  "reverse_lookup (demo_env remote_down) ''account'' ''Acme'' demo_state = (None, demo_state)"
  using reverse_lookup_unsupported [of "''account''" "demo_env remote_down" "''Acme''" demo_state]
  by simp

section \<open>Expiry of cache entries\<close>

lemma is_cache_entry_valid_iff:
  "fst (is_cache_entry_valid e cache_entry s) = Inr True \<longleftrightarrow>
     (\<exists>kvs ts saved. cache_entry = JObj kvs
        \<and> map_of kvs ''timestamp'' = Some (JStr ts)
        \<and> fromisoformat e ts = Some (Naive saved)
        \<and> clock e (clock_reads s) - saved < timedelta_hours CACHE_EXPIRY_HOURS)"
  by (cases cache_entry)
    (auto simp add: is_cache_entry_valid_def valid_try_def now_def
      split: option.splits json.splits pydatetime.splits)

lemma is_cache_entry_valid_state:
  "snd (is_cache_entry_valid e cache_entry s) = s
   \<or> snd (is_cache_entry_valid e cache_entry s) = s\<lparr>clock_reads := Suc (clock_reads s)\<rparr>"
  by (cases cache_entry)
    (auto simp add: is_cache_entry_valid_def valid_try_def now_def
      split: option.splits json.splits pydatetime.splits)

lemma is_cache_entry_valid_keeps:
  "cache_data (snd (is_cache_entry_valid e cache_entry s)) = cache_data s
   \<and> fetch_calls (snd (is_cache_entry_valid e cache_entry s)) = fetch_calls s
   \<and> sent (snd (is_cache_entry_valid e cache_entry s)) = sent s"
  using is_cache_entry_valid_state [of e cache_entry s] by auto

lemma is_cache_entry_valid_raises:
  "fst (is_cache_entry_valid e cache_entry s) = Inl ex \<longleftrightarrow>
     ex = TypeError \<and> ((\<exists>n. cache_entry = JInt n \<and> n \<noteq> 0) \<or> cache_entry = JBool True)"
  by (cases cache_entry)
    (auto simp add: is_cache_entry_valid_def split: prod.splits sum.splits)

lemma cache_store_keeps:
  "fetch_calls (cache_store e k name s) = fetch_calls s \<and> sent (cache_store e k name s) = sent s"
  by (simp add: cache_store_def now_def save_cache_def Let_def)

lemma cache_store_cache_data:
  "cache_data (cache_store e k name s)
     = (cache_data s)(k \<mapsto> JObj [(''name'', name),
                                    (''timestamp'', JStr (isoformat e (clock e (clock_reads s))))])"
  by (simp add: cache_store_def now_def save_cache_def Let_def)

lemma fetch_from_crm_keeps:
  "clock_reads (snd (fetch_from_crm e entity_type entity_id s)) = clock_reads s
   \<and> cache_data (snd (fetch_from_crm e entity_type entity_id s)) = cache_data s
   \<and> fetch_calls (snd (fetch_from_crm e entity_type entity_id s))
       = fetch_calls s @ [(entity_type, entity_id, cache_data s)]"
  by (simp add: fetch_from_crm_def requests_get_def Let_def split: option.splits sum.splits)

lemma fetch_and_store_value:
  "fst (fetch_and_store e entity_type entity_id s) = fst (fetch_from_crm e entity_type entity_id s)"
  by (simp add: fetch_and_store_def split: prod.splits)

lemma fetch_and_store_calls:
  "fetch_calls (snd (fetch_and_store e entity_type entity_id s))
     = fetch_calls s @ [(entity_type, entity_id, cache_data s)]"
  using fetch_from_crm_keeps [of e entity_type entity_id s]
  by (auto simp add: fetch_and_store_def cache_store_keeps split: prod.splits)

lemma fetch_and_store_entry:
  "cache_data (snd (fetch_and_store e entity_type entity_id s)) (cache_key_of entity_type entity_id)
     = Some (JObj [(''name'', fst (fetch_from_crm e entity_type entity_id s)),
                   (''timestamp'', JStr (isoformat e (clock e (clock_reads s))))])"
  using fetch_from_crm_keeps [of e entity_type entity_id s]
  by (auto simp add: fetch_and_store_def cache_store_cache_data split: prod.splits)

lemma entity_lookup_miss:
  "entity_id \<noteq> [] \<Longrightarrow> cache_data s (cache_key_of entity_type entity_id) = None \<Longrightarrow>
   entity_lookup e entity_type (Some entity_id) s
     = (Inr (fst (fetch_and_store e entity_type entity_id s)),
        snd (fetch_and_store e entity_type entity_id s))"
  by (simp add: entity_lookup_def split: prod.splits)

lemma entity_lookup_raises:
  "entity_id \<noteq> [] \<Longrightarrow> cache_data s (cache_key_of entity_type entity_id) = Some cache_entry \<Longrightarrow>
   is_cache_entry_valid e cache_entry s = (Inl ex, sc) \<Longrightarrow>
   entity_lookup e entity_type (Some entity_id) s = (Inl ex, sc)"
  by (simp add: entity_lookup_def)

lemma entity_lookup_valid:
  "entity_id \<noteq> [] \<Longrightarrow> cache_data s (cache_key_of entity_type entity_id) = Some cache_entry \<Longrightarrow>
   is_cache_entry_valid e cache_entry s = (Inr True, sc) \<Longrightarrow>
   entity_lookup e entity_type (Some entity_id) s
     = (case subscript_key cache_entry ''name'' of Inl ex \<Rightarrow> Inl ex | Inr name \<Rightarrow> Inr name, sc)"
  by (simp add: entity_lookup_def split: sum.splits)

lemma entity_lookup_invalid:
  assumes id: "entity_id \<noteq> []"
    and hit: "cache_data s (cache_key_of entity_type entity_id) = Some cache_entry"
    and inv: "is_cache_entry_valid e cache_entry s = (Inr False, sc)"
    and s2: "s2 = sc\<lparr>cache_data := (cache_data s)(cache_key_of entity_type entity_id := None)\<rparr>"
  shows "entity_lookup e entity_type (Some entity_id) s
     = (Inr (fst (fetch_and_store e entity_type entity_id s2)),
        snd (fetch_and_store e entity_type entity_id s2))"
proof -
  have cd: "cache_data sc = cache_data s"
    using is_cache_entry_valid_keeps [of e cache_entry s] inv by simp
  show ?thesis
    using id hit inv cd s2 by (simp add: entity_lookup_def split: prod.splits)
qed

text \<open>
  C3. For every cache entry, the validity check answers \<^verbatim>\<open>True\<close> iff the entry is a dict
  whose timestamp is a string that parses to a (naive) time \<open>saved\<close> with
  \<open>now - saved < 176 hours\<close>; the inequality is strict, so an entry is invalid at exactly
  the expiry boundary. When \<^verbatim>\<open>entity_lookup\<close> finds an entry that the check answers
  \<^verbatim>\<open>False\<close> for, \<^verbatim>\<open>_fetch_from_crm\<close> is called once, and the cache table at the moment of
  that call is the old table without the entry: the entry is deleted before the remote
  fetch. The value returned is the one that \<^verbatim>\<open>_fetch_from_crm\<close> gives, never the entry's
  name, and the whole outcome is that of a lookup in the table without the entry. Whatever
  the table holds, \<^verbatim>\<open>entity_lookup\<close> calls \<^verbatim>\<open>_fetch_from_crm\<close> at most once, and only
  while the table has no entry under the key.
\<close>

theorem expired_entry_never_returned:
  "(fst (is_cache_entry_valid e cache_entry s) = Inr True \<longleftrightarrow>
      (\<exists>kvs ts saved. cache_entry = JObj kvs
         \<and> map_of kvs ''timestamp'' = Some (JStr ts)
         \<and> fromisoformat e ts = Some (Naive saved)
         \<and> clock e (clock_reads s) - saved < timedelta_hours 176))
   \<and> (entity_id \<noteq> []
        \<and> cache_data s (cache_key_of entity_type entity_id) = Some cache_entry
        \<and> is_cache_entry_valid e cache_entry s = (Inr False, sc) \<longrightarrow>
        (let s2 = sc\<lparr>cache_data := (cache_data s)(cache_key_of entity_type entity_id := None)\<rparr>;
             res = entity_lookup e entity_type (Some entity_id) s
         in fetch_calls (snd res)
              = fetch_calls s
                @ [(entity_type, entity_id,
                    (cache_data s)(cache_key_of entity_type entity_id := None))]
            \<and> fst res = Inr (fst (fetch_from_crm e entity_type entity_id s2))
            \<and> res = entity_lookup e entity_type (Some entity_id) s2))
   \<and> (entity_id \<noteq> [] \<longrightarrow>
        (let res = entity_lookup e entity_type (Some entity_id) s
         in fetch_calls (snd res) = fetch_calls s
            \<or> (\<exists>table. fetch_calls (snd res)
                          = fetch_calls s @ [(entity_type, entity_id, table)]
                  \<and> table (cache_key_of entity_type entity_id) = None)))"
proof (intro conjI impI)
  show "fst (is_cache_entry_valid e cache_entry s) = Inr True \<longleftrightarrow>
      (\<exists>kvs ts saved. cache_entry = JObj kvs
         \<and> map_of kvs ''timestamp'' = Some (JStr ts)
         \<and> fromisoformat e ts = Some (Naive saved)
         \<and> clock e (clock_reads s) - saved < timedelta_hours 176)"
    using is_cache_entry_valid_iff [of e cache_entry s] by (simp add: CACHE_EXPIRY_HOURS_def)
next
  let ?key = "cache_key_of entity_type entity_id"
  assume a: "entity_id \<noteq> [] \<and> cache_data s ?key = Some cache_entry
        \<and> is_cache_entry_valid e cache_entry s = (Inr False, sc)"
  define s2 where "s2 = sc\<lparr>cache_data := (cache_data s)(?key := None)\<rparr>"
  define res where "res = entity_lookup e entity_type (Some entity_id) s"
  have absent: "cache_data s2 ?key = None"
    by (simp add: s2_def)
  have fc: "fetch_calls s2 = fetch_calls s"
    using is_cache_entry_valid_keeps [of e cache_entry s] a by (simp add: s2_def)
  have l: "res = (Inr (fst (fetch_and_store e entity_type entity_id s2)),
          snd (fetch_and_store e entity_type entity_id s2))"
    unfolding res_def
    using a entity_lookup_invalid [of entity_id s entity_type cache_entry e sc s2] s2_def
    by simp
  have r: "entity_lookup e entity_type (Some entity_id) s2
       = (Inr (fst (fetch_and_store e entity_type entity_id s2)),
          snd (fetch_and_store e entity_type entity_id s2))"
    using a absent entity_lookup_miss [of entity_id s2 entity_type e] by simp
  have calls: "fetch_calls (snd res)
      = fetch_calls s @ [(entity_type, entity_id, (cache_data s)(?key := None))]"
    using l fc fetch_and_store_calls [of e entity_type entity_id s2] by (simp add: s2_def)
  show "let s2 = sc\<lparr>cache_data := (cache_data s)(?key := None)\<rparr>;
             res = entity_lookup e entity_type (Some entity_id) s
         in fetch_calls (snd res)
              = fetch_calls s @ [(entity_type, entity_id, (cache_data s)(?key := None))]
            \<and> fst res = Inr (fst (fetch_from_crm e entity_type entity_id s2))
            \<and> res = entity_lookup e entity_type (Some entity_id) s2"
    unfolding Let_def s2_def [symmetric]
    unfolding res_def [symmetric]
    using calls l r by (simp add: fetch_and_store_value)
next
  let ?key = "cache_key_of entity_type entity_id"
  assume id: "entity_id \<noteq> []"
  define res where "res = entity_lookup e entity_type (Some entity_id) s"
  have "fetch_calls (snd res) = fetch_calls s
      \<or> (\<exists>table. fetch_calls (snd res) = fetch_calls s @ [(entity_type, entity_id, table)]
            \<and> table ?key = None)"
  proof (cases "cache_data s ?key")
    case None
    then have "fetch_calls (snd res) = fetch_calls s @ [(entity_type, entity_id, cache_data s)]"
      using id by (simp add: res_def entity_lookup_miss fetch_and_store_calls)
    then show ?thesis using None by blast
  next
    case (Some cache_entry)
    obtain v sc where v: "is_cache_entry_valid e cache_entry s = (v, sc)"
      by (cases "is_cache_entry_valid e cache_entry s")
    have fc: "fetch_calls sc = fetch_calls s" and cd: "cache_data sc = cache_data s"
      using is_cache_entry_valid_keeps [of e cache_entry s] v by simp_all
    show ?thesis
    proof (cases v)
      case (Inl ex)
      then show ?thesis
        using id Some v fc by (simp add: res_def entity_lookup_raises)
    next
      case (Inr b)
      show ?thesis
      proof (cases b)
        case True
        then show ?thesis
          using id Some v Inr fc by (simp add: res_def entity_lookup_valid)
      next
        case False
        define s2 where "s2 = sc\<lparr>cache_data := (cache_data s)(?key := None)\<rparr>"
        have "res = (Inr (fst (fetch_and_store e entity_type entity_id s2)),
            snd (fetch_and_store e entity_type entity_id s2))"
          unfolding res_def
          using id Some v Inr False
            entity_lookup_invalid [of entity_id s entity_type cache_entry e sc s2] s2_def
          by simp
        then have "fetch_calls (snd res)
            = fetch_calls s @ [(entity_type, entity_id, (cache_data s)(?key := None))]"
          using fc fetch_and_store_calls [of e entity_type entity_id s2] by (simp add: s2_def)
        then show ?thesis by simp
      qed
    qed
  qed
  then show "let res = entity_lookup e entity_type (Some entity_id) s
         in fetch_calls (snd res) = fetch_calls s
            \<or> (\<exists>table. fetch_calls (snd res)
                          = fetch_calls s @ [(entity_type, entity_id, table)]
                  \<and> table ?key = None)"
    unfolding Let_def res_def [symmetric] by simp
qed

theorem expired_entry_never_returned_witness:
  "fst (is_cache_entry_valid (demo_env remote_404) (stale_entry ''366400000000'')
         (cached_state (stale_entry ''366400000000''))) = Inr False
   \<and> fst (is_cache_entry_valid (demo_env remote_404) (stale_entry ''366400000001'')
           (cached_state (stale_entry ''366400000000''))) = Inr True
   \<and> fst (entity_lookup (demo_env remote_404) ''user'' (Some ''3f9a2c1d-0000-4e6b'')
           (cached_state (stale_entry ''366400000000'')))
       = Inr (JStr ''Not found (3f9a2c1d...)'')
   \<and> length (fetch_calls (snd (entity_lookup (demo_env remote_404) ''user''
                (Some ''3f9a2c1d-0000-4e6b'') (cached_state (stale_entry ''366400000000'')))))
       = 1
   \<and> snd (snd (hd (fetch_calls (snd (entity_lookup (demo_env remote_404) ''user''
                (Some ''3f9a2c1d-0000-4e6b'') (cached_state (stale_entry ''366400000000'')))))))
         ''user_3f9a2c1d-0000-4e6b''
       = None"
  using expired_entry_never_returned [where e = "demo_env remote_404"
      and cache_entry = "stale_entry ''366400000000''"
      and s = "cached_state (stale_entry ''366400000000'')"
      and sc = "snd (is_cache_entry_valid (demo_env remote_404) (stale_entry ''366400000000'')
                      (cached_state (stale_entry ''366400000000'')))"
      and entity_type = "''user''" and entity_id = "''3f9a2c1d-0000-4e6b''"]
    expired_entry_never_returned [where e = "demo_env remote_404"
      and cache_entry = "stale_entry ''366400000001''"
      and s = "cached_state (stale_entry ''366400000000'')"
      and entity_type = "''user''" and entity_id = "''3f9a2c1d-0000-4e6b''"]
  by (simp add: run_defs stale_entry_def cached_state_def)

section \<open>Malformed cache entries\<close>

text \<open>
  An entry that is a dict and is empty, has no \<^verbatim>\<open>'timestamp'\<close>, or has a timestamp string
  that cannot be parsed is answered \<^verbatim>\<open>False\<close> without a clock reading, so that
  \<^verbatim>\<open>entity_lookup\<close> deletes it and fetches afresh, as stated above for every entry that
  the check answers \<^verbatim>\<open>False\<close> for. Whatever the \<^verbatim>\<open>try\<close> block raises gives
  \<^verbatim>\<open>False\<close> as well.
\<close>

lemma malformed_dict_entry:
  "kvs = [] \<or> map_of kvs ''timestamp'' = None
     \<or> (\<exists>ts. map_of kvs ''timestamp'' = Some (JStr ts) \<and> fromisoformat e ts = None)
   \<Longrightarrow> is_cache_entry_valid e (JObj kvs) s = (Inr False, s)"
  by (auto simp add: is_cache_entry_valid_def valid_try_def)

lemma valid_try_exception:
  "truthy cache_entry \<Longrightarrow> py_in ''timestamp'' cache_entry = Inr True \<Longrightarrow>
   valid_try e cache_entry s = (Inl ex, sc) \<Longrightarrow>
   is_cache_entry_valid e cache_entry s = (Inr False, sc)"
  by (simp add: is_cache_entry_valid_def)

text \<open>
  C10 (fails on the code). The validity check is not total: the
  membership test \<^verbatim>\<open>'timestamp' not in cache_entry\<close> is evaluated before the \<^verbatim>\<open>try\<close>
  block, and on an entry that is a non-zero number or \<^verbatim>\<open>true\<close> it raises
  \<^verbatim>\<open>TypeError\<close> (lemma \<open>is_cache_entry_valid_raises\<close> says that these are the only such
  entries). With the cache file \<^verbatim>\<open>{"user_3f9a2c1d-0000-4e6b": 5}\<close> the check raises, and so
  does \<^verbatim>\<open>entity_lookup\<close>: the entry stays in the table and nothing is fetched.
\<close>

theorem non_container_entry_raises:
  "is_cache_entry_valid (demo_env remote_404) (JInt 5) (cached_state (JInt 5))
     = (Inl TypeError, cached_state (JInt 5))
   \<and> entity_lookup (demo_env remote_404) ''user'' (Some ''3f9a2c1d-0000-4e6b'')
        (cached_state (JInt 5))
       = (Inl TypeError, cached_state (JInt 5))"
  by (simp add: run_defs cached_state_def)

section \<open>Customer names\<close>

lemma cache_store_sent: "sent (cache_store e k name s) = sent s"
  by (simp add: cache_store_def now_def save_cache_def Let_def)

lemma no_name_not_failure: "\<not> startswith_failure (fallback ''No name'' entity_id)"
  by (simp add: startswith_failure_def fallback_def)

lemma map_of_account: "map_of entity_configs ''account'' = Some \<lparr>endpoint = ''accounts'', name_field = ''name''\<rparr>"
  by (simp add: entity_configs_def)

lemma fetch_and_store_sent:
  "sent (snd (fetch_and_store e entity_type entity_id s))
     = sent (snd (fetch_from_crm e entity_type entity_id s))"
  by (simp add: fetch_and_store_def cache_store_sent split: prod.splits)

text \<open>
  C2 (as amended). For a non-empty customer identifier, \<^verbatim>\<open>get_customer_name\<close> first looks
  the account up. If the result is a non-empty string that does not begin with
  \<^verbatim>\<open>Unknown\<close>, \<^verbatim>\<open>Not found\<close> or \<^verbatim>\<open>Error\<close>, it is returned. If the result begins with
  one of these prefixes, or is the empty string or \<^verbatim>\<open>None\<close>, the result of the contact
  lookup is returned as it is, success or failure, with no further fallback.
\<close>

theorem customer_name_account_then_contact:
  "customer_id \<noteq> [] \<and> entity_lookup e ''account'' (Some customer_id) s = (Inr name, s') \<longrightarrow>
     ((\<exists>n. name = JStr n \<and> n \<noteq> [] \<and> \<not> startswith_failure n) \<longrightarrow>
        get_customer_name e (Some customer_id) s = (Inr name, s'))
     \<and> ((\<exists>n. name = JStr n \<and> startswith_failure n) \<or> name = JStr [] \<or> name = JNull \<longrightarrow>
        get_customer_name e (Some customer_id) s
          = entity_lookup e ''contact'' (Some customer_id) s')"
  by (auto simp add: get_customer_name_def)

theorem customer_name_account_then_contact_witness:
  "get_customer_name (demo_env remote_acme) (Some ''c-42'') demo_state
     = entity_lookup (demo_env remote_acme) ''account'' (Some ''c-42'') demo_state
   \<and> fst (get_customer_name (demo_env remote_acme) (Some ''c-42'') demo_state)
       = Inr (JStr ''Acme'')
   \<and> fst (entity_lookup (demo_env remote_404) ''account'' (Some ''c-42'') demo_state)
       = Inr (JStr ''Not found (c-42...)'')
   \<and> fst (get_customer_name (demo_env remote_404) (Some ''c-42'') demo_state)
       = fst (entity_lookup (demo_env remote_404) ''contact'' (Some ''c-42'')
               (snd (entity_lookup (demo_env remote_404) ''account'' (Some ''c-42'') demo_state)))"
  using customer_name_account_then_contact [where e = "demo_env remote_acme"
      and customer_id = "''c-42''" and s = demo_state and name = "JStr ''Acme''"
      and s' = "snd (entity_lookup (demo_env remote_acme) ''account'' (Some ''c-42'') demo_state)"]
    customer_name_account_then_contact [where e = "demo_env remote_404"
      and customer_id = "''c-42''" and s = demo_state and name = "JStr ''Not found (c-42...)''"
      and s' = "snd (entity_lookup (demo_env remote_404) ''account'' (Some ''c-42'') demo_state)"]
  by (simp add: run_defs remote_acme_def Let_def)

text \<open>
  C2 as stated fails when the account's name is the empty string: the account lookup
  returns \<^verbatim>\<open>''\<close>, which begins with none of the prefixes, and yet the contact's name
  \<^verbatim>\<open>Bob\<close> is what \<^verbatim>\<open>get_customer_name\<close> returns.
\<close>

theorem empty_account_name_counterexample:
  "fst (entity_lookup (demo_env remote_unnamed_account) ''account'' (Some ''c-42'') demo_state)
     = Inr (JStr '''')
   \<and> \<not> startswith_failure ''''
   \<and> fst (get_customer_name (demo_env remote_unnamed_account) (Some ''c-42'') demo_state)
       = Inr (JStr ''Bob'')"
  by (simp add: run_defs remote_unnamed_account_def Let_def)

text \<open>
  C9. \<^verbatim>\<open>get_customer_name\<close> goes on to the contact lookup when the account result is
  falsy (\<^verbatim>\<open>None\<close>, the empty string). The fallback \<^verbatim>\<open>No name (...)\<close> begins with none
  of the failure prefixes: when the account is not cached and the remote answers 200 with a
  dict that lacks \<^verbatim>\<open>name\<close>, that fallback is returned as the customer name and the only
  request sent is the one for the account.
\<close>

theorem customer_name_falsy_and_no_name:
  "(customer_id \<noteq> [] \<and> entity_lookup e ''account'' (Some customer_id) s = (Inr name, s')
      \<and> \<not> truthy name \<longrightarrow>
      get_customer_name e (Some customer_id) s
        = entity_lookup e ''contact'' (Some customer_id) s')
   \<and> \<not> startswith_failure (fallback ''No name'' customer_id)
   \<and> (customer_id \<noteq> [] \<and> cache_data s (cache_key_of ''account'' customer_id) = None
        \<and> http_get e (sent s)
             (fetch_request s \<lparr>endpoint = ''accounts'', name_field = ''name''\<rparr> customer_id)
            = Response 200 (Some (JObj kvs))
        \<and> map_of kvs ''name'' = None \<longrightarrow>
        fst (get_customer_name e (Some customer_id) s)
          = Inr (JStr (fallback ''No name'' customer_id))
        \<and> sent (snd (get_customer_name e (Some customer_id) s))
            = sent s @ [fetch_request s \<lparr>endpoint = ''accounts'', name_field = ''name''\<rparr>
                          customer_id])"
proof (intro conjI impI)
  assume "customer_id \<noteq> [] \<and> entity_lookup e ''account'' (Some customer_id) s = (Inr name, s')
      \<and> \<not> truthy name"
  then show "get_customer_name e (Some customer_id) s
        = entity_lookup e ''contact'' (Some customer_id) s'"
    by (simp add: get_customer_name_def)
next
  show "\<not> startswith_failure (fallback ''No name'' customer_id)"
    by (rule no_name_not_failure)
next
  let ?cfg = "\<lparr>endpoint = ''accounts'', name_field = ''name''\<rparr>"
  let ?req = "fetch_request s ?cfg customer_id"
  let ?name = "JStr (fallback ''No name'' customer_id)"
  assume a: "customer_id \<noteq> [] \<and> cache_data s (cache_key_of ''account'' customer_id) = None
        \<and> http_get e (sent s) ?req = Response 200 (Some (JObj kvs))
        \<and> map_of kvs ''name'' = None"
  have f: "fst (fetch_from_crm e ''account'' customer_id s) = ?name
      \<and> sent (snd (fetch_from_crm e ''account'' customer_id s)) = sent s @ [?req]"
    using a by (simp add: fetch_from_crm_known [OF map_of_account] fetch_try_def)
  have l: "entity_lookup e ''account'' (Some customer_id) s
      = (Inr ?name, snd (fetch_and_store e ''account'' customer_id s))"
    using a f by (simp add: entity_lookup_miss fetch_and_store_value)
  have t: "truthy ?name" by (simp add: fallback_def)
  have g: "get_customer_name e (Some customer_id) s
      = (Inr ?name, snd (fetch_and_store e ''account'' customer_id s))"
    using a l t no_name_not_failure [of customer_id] by (simp add: get_customer_name_def)
  show "fst (get_customer_name e (Some customer_id) s) = Inr ?name"
    using g by simp
  show "sent (snd (get_customer_name e (Some customer_id) s)) = sent s @ [?req]"
    using g f by (simp add: fetch_and_store_sent)
qed

theorem customer_name_falsy_and_no_name_witness:
  "fst (entity_lookup (demo_env remote_null_account) ''account'' (Some ''c-42'') demo_state)
     = Inr JNull
   \<and> fst (get_customer_name (demo_env remote_null_account) (Some ''c-42'') demo_state)
       = Inr (JStr ''Bob'')
   \<and> fst (get_customer_name (demo_env remote_no_fields) (Some ''c-42'') demo_state)
       = Inr (JStr ''No name (c-42...)'')
   \<and> length (sent (snd (get_customer_name (demo_env remote_no_fields) (Some ''c-42'')
                          demo_state))) = 1"
  using customer_name_falsy_and_no_name [where e = "demo_env remote_null_account"
      and customer_id = "''c-42''" and s = demo_state and name = JNull
      and s' = "snd (entity_lookup (demo_env remote_null_account) ''account'' (Some ''c-42'')
                      demo_state)"]
    customer_name_falsy_and_no_name [where e = "demo_env remote_no_fields"
      and customer_id = "''c-42''" and s = demo_state
      and kvs = "[(''@odata.etag'', JStr ''W/1'')]"]
  by (simp add: run_defs remote_null_account_def remote_no_fields_def Let_def)

section \<open>Reverse lookup: exact match, partial match, failures\<close>

lemmas remote_defs = jane_doe_def jane_doering_def no_users_def filter_of_def remote_users_def
  remote_500_then_match_def remote_flaky_def user_cfg_def

lemma supported_types:
  "map_of reverse_configs entity_type \<noteq> None
     \<longleftrightarrow> entity_type = ''user'' \<or> entity_type = ''division''"
  by (simp add: reverse_configs_def)

lemma search_request_sent [simp]:
  "search_request (s\<lparr>sent := xs\<rparr>) cfg f = search_request s cfg f"
  by (simp add: search_request_def auth_headers_def)

lemma reverse_lookup_attempts:
  assumes "search_name \<noteq> []" and "map_of reverse_configs entity_type = Some cfg"
  shows "reverse_lookup e entity_type search_name s =
     (let req1 = search_request s cfg (exact_filter cfg search_name);
          req2 = search_request s cfg (partial_filter cfg search_name)
      in case search_try cfg (http_get e (sent s) req1) of
           Inl ex \<Rightarrow> (None, s\<lparr>sent := sent s @ [req1]\<rparr>)
         | Inr (Some (entity_id, entity_name)) \<Rightarrow>
             (Some entity_id,
              cache_store e (cache_key_of entity_type (format_value e entity_id)) entity_name
                (s\<lparr>sent := sent s @ [req1]\<rparr>))
         | Inr None \<Rightarrow>
             (case search_try cfg (http_get e (sent s @ [req1]) req2) of
                Inl ex \<Rightarrow> (None, s\<lparr>sent := sent s @ [req1, req2]\<rparr>)
              | Inr (Some (entity_id, entity_name)) \<Rightarrow>
                  (Some entity_id,
                   cache_store e (cache_key_of entity_type (format_value e entity_id))
                     entity_name (s\<lparr>sent := sent s @ [req1, req2]\<rparr>))
              | Inr None \<Rightarrow> (None, s\<lparr>sent := sent s @ [req1, req2]\<rparr>)))"
  using assms
  by (simp add: reverse_lookup_def filters_def requests_get_def Let_def
      split: sum.splits option.splits prod.splits)

text \<open>
  C5. For a supported entity type (\<^verbatim>\<open>user\<close>, \<^verbatim>\<open>division\<close>) and a non-empty search
  name, the first request of \<^verbatim>\<open>reverse_lookup\<close> carries the exact filter
  \<^verbatim>\<open><name_field> eq '<search_name>'\<close>; the request with the filter
  \<^verbatim>\<open>contains(<name_field>, '<search_name>')\<close> is sent if and only if the exact attempt
  yields no result; both requests ask for one result (\<^verbatim>\<open>$top = 1\<close>). The first attempt
  that yields an identifier wins: a result of the exact attempt is returned without a
  partial attempt.
\<close>

theorem exact_before_partial:
  "search_name \<noteq> [] \<and> map_of reverse_configs entity_type = Some cfg \<longrightarrow>
     (let req1 = search_request s cfg (exact_filter cfg search_name);
          req2 = search_request s cfg (partial_filter cfg search_name);
          r1 = search_try cfg (http_get e (sent s) req1);
          r2 = search_try cfg (http_get e (sent s @ [req1]) req2);
          res = reverse_lookup e entity_type search_name s
      in map_of (params req1) ''$filter''
           = Some (JStr (name_field cfg @ '' eq '' @ quote @ search_name @ quote))
         \<and> map_of (params req2) ''$filter''
             = Some (JStr (''contains('' @ name_field cfg @ '', '' @ quote @ search_name
                            @ quote @ '')''))
         \<and> map_of (params req1) ''$top'' = Some (JInt 1)
         \<and> map_of (params req2) ''$top'' = Some (JInt 1)
         \<and> sent (snd res) = (if r1 = Inr None then sent s @ [req1, req2] else sent s @ [req1])
         \<and> (\<forall>entity_id entity_name.
               r1 = Inr (Some (entity_id, entity_name)) \<longrightarrow> fst res = Some entity_id)
         \<and> (r1 = Inr None \<longrightarrow>
               (\<forall>entity_id entity_name.
                  r2 = Inr (Some (entity_id, entity_name)) \<longrightarrow> fst res = Some entity_id)
               \<and> (r2 = Inr None \<longrightarrow> fst res = None)))"
proof
  assume a: "search_name \<noteq> [] \<and> map_of reverse_configs entity_type = Some cfg"
  define req1 where "req1 = search_request s cfg (exact_filter cfg search_name)"
  define req2 where "req2 = search_request s cfg (partial_filter cfg search_name)"
  define r1 where "r1 = search_try cfg (http_get e (sent s) req1)"
  define r2 where "r2 = search_try cfg (http_get e (sent s @ [req1]) req2)"
  define res where "res = reverse_lookup e entity_type search_name s"
  have res: "res = (case r1 of
           Inl ex \<Rightarrow> (None, s\<lparr>sent := sent s @ [req1]\<rparr>)
         | Inr (Some (entity_id, entity_name)) \<Rightarrow>
             (Some entity_id,
              cache_store e (cache_key_of entity_type (format_value e entity_id)) entity_name
                (s\<lparr>sent := sent s @ [req1]\<rparr>))
         | Inr None \<Rightarrow>
             (case r2 of
                Inl ex \<Rightarrow> (None, s\<lparr>sent := sent s @ [req1, req2]\<rparr>)
              | Inr (Some (entity_id, entity_name)) \<Rightarrow>
                  (Some entity_id,
                   cache_store e (cache_key_of entity_type (format_value e entity_id))
                     entity_name (s\<lparr>sent := sent s @ [req1, req2]\<rparr>))
              | Inr None \<Rightarrow> (None, s\<lparr>sent := sent s @ [req1, req2]\<rparr>)))"
    unfolding res_def r1_def r2_def req1_def req2_def
    using a reverse_lookup_attempts [of search_name entity_type cfg e s, unfolded Let_def]
    by blast
  have f1: "map_of (params req1) ''$filter''
      = Some (JStr (name_field cfg @ '' eq '' @ quote @ search_name @ quote))"
    by (simp add: req1_def search_request_def exact_filter_def)
  have f2: "map_of (params req2) ''$filter''
      = Some (JStr (''contains('' @ name_field cfg @ '', '' @ quote @ search_name
                            @ quote @ '')''))"
    by (simp add: req2_def search_request_def partial_filter_def)
  have t1: "map_of (params req1) ''$top'' = Some (JInt 1)"
    by (simp add: req1_def search_request_def)
  have t2: "map_of (params req2) ''$top'' = Some (JInt 1)"
    by (simp add: req2_def search_request_def)
  have sn: "sent (snd res) = (if r1 = Inr None then sent s @ [req1, req2] else sent s @ [req1])"
    by (simp add: res cache_store_sent split: sum.splits option.splits prod.splits)
  have w1: "\<forall>entity_id entity_name.
      r1 = Inr (Some (entity_id, entity_name)) \<longrightarrow> fst res = Some entity_id"
    by (simp add: res)
  have w2: "r1 = Inr None \<longrightarrow>
      (\<forall>entity_id entity_name.
         r2 = Inr (Some (entity_id, entity_name)) \<longrightarrow> fst res = Some entity_id)
      \<and> (r2 = Inr None \<longrightarrow> fst res = None)"
    by (simp add: res)
  show "let req1 = search_request s cfg (exact_filter cfg search_name);
          req2 = search_request s cfg (partial_filter cfg search_name);
          r1 = search_try cfg (http_get e (sent s) req1);
          r2 = search_try cfg (http_get e (sent s @ [req1]) req2);
          res = reverse_lookup e entity_type search_name s
      in map_of (params req1) ''$filter''
           = Some (JStr (name_field cfg @ '' eq '' @ quote @ search_name @ quote))
         \<and> map_of (params req2) ''$filter''
             = Some (JStr (''contains('' @ name_field cfg @ '', '' @ quote @ search_name
                            @ quote @ '')''))
         \<and> map_of (params req1) ''$top'' = Some (JInt 1)
         \<and> map_of (params req2) ''$top'' = Some (JInt 1)
         \<and> sent (snd res) = (if r1 = Inr None then sent s @ [req1, req2] else sent s @ [req1])
         \<and> (\<forall>entity_id entity_name.
               r1 = Inr (Some (entity_id, entity_name)) \<longrightarrow> fst res = Some entity_id)
         \<and> (r1 = Inr None \<longrightarrow>
               (\<forall>entity_id entity_name.
                  r2 = Inr (Some (entity_id, entity_name)) \<longrightarrow> fst res = Some entity_id)
               \<and> (r2 = Inr None \<longrightarrow> fst res = None))"
    unfolding Let_def
    unfolding req1_def [symmetric] req2_def [symmetric]
    unfolding r1_def [symmetric] r2_def [symmetric] res_def [symmetric]
    using f1 f2 t1 t2 sn w1 w2 by blast
qed

theorem exact_before_partial_witness:
  "fst (reverse_lookup (demo_env remote_users) ''user'' ''Jane Doe'' demo_state)
     = Some (JStr ''u-1'')
   \<and> length (sent (snd (reverse_lookup (demo_env remote_users) ''user'' ''Jane Doe'' demo_state)))
       = 1
   \<and> fst (reverse_lookup (demo_env remote_users) ''user'' ''Jane'' demo_state)
       = Some (JStr ''u-2'')
   \<and> length (sent (snd (reverse_lookup (demo_env remote_users) ''user'' ''Jane'' demo_state)))
       = 2"
  using exact_before_partial [where e = "demo_env remote_users" and entity_type = "''user''"
      and cfg = user_cfg and search_name = "''Jane Doe''" and s = demo_state]
    exact_before_partial [where e = "demo_env remote_users" and entity_type = "''user''"
      and cfg = user_cfg and search_name = "''Jane''" and s = demo_state]
  by (simp add: run_defs remote_defs)

text \<open>
  C4 (as amended). When an attempt of \<^verbatim>\<open>reverse_lookup\<close> raises (the request raises, or
  the body of a 200 response is not JSON or not of the expected shape), the operation
  stops there and returns \<^verbatim>\<open>None\<close> to its caller: after an exception in the exact
  attempt no partial attempt is made, and the cache is not touched. A response whose status
  is not 200 is not such a failure: the attempt yields no result and the loop goes on.
\<close>

theorem reverse_lookup_aborts_on_exception:
  "search_name \<noteq> [] \<and> map_of reverse_configs entity_type = Some cfg \<longrightarrow>
     (let req1 = search_request s cfg (exact_filter cfg search_name);
          req2 = search_request s cfg (partial_filter cfg search_name);
          r1 = search_try cfg (http_get e (sent s) req1);
          r2 = search_try cfg (http_get e (sent s @ [req1]) req2)
      in ((\<exists>ex. r1 = Inl ex) \<longrightarrow>
            reverse_lookup e entity_type search_name s = (None, s\<lparr>sent := sent s @ [req1]\<rparr>))
         \<and> (r1 = Inr None \<and> (\<exists>ex. r2 = Inl ex) \<longrightarrow>
            reverse_lookup e entity_type search_name s
              = (None, s\<lparr>sent := sent s @ [req1, req2]\<rparr>))
         \<and> search_try cfg Raised = Inl RequestException
         \<and> search_try cfg (Response 200 None) = Inl JSONDecodeError
         \<and> (\<forall>code body. code \<noteq> 200 \<longrightarrow> search_try cfg (Response code body) = Inr None))"
proof
  assume a: "search_name \<noteq> [] \<and> map_of reverse_configs entity_type = Some cfg"
  have st: "search_try cfg Raised = Inl RequestException
         \<and> search_try cfg (Response 200 None) = Inl JSONDecodeError
         \<and> (\<forall>code body. code \<noteq> 200 \<longrightarrow> search_try cfg (Response code body) = Inr None)"
    by (simp add: search_try_def)
  show "let req1 = search_request s cfg (exact_filter cfg search_name);
          req2 = search_request s cfg (partial_filter cfg search_name);
          r1 = search_try cfg (http_get e (sent s) req1);
          r2 = search_try cfg (http_get e (sent s @ [req1]) req2)
      in ((\<exists>ex. r1 = Inl ex) \<longrightarrow>
            reverse_lookup e entity_type search_name s = (None, s\<lparr>sent := sent s @ [req1]\<rparr>))
         \<and> (r1 = Inr None \<and> (\<exists>ex. r2 = Inl ex) \<longrightarrow>
            reverse_lookup e entity_type search_name s
              = (None, s\<lparr>sent := sent s @ [req1, req2]\<rparr>))
         \<and> search_try cfg Raised = Inl RequestException
         \<and> search_try cfg (Response 200 None) = Inl JSONDecodeError
         \<and> (\<forall>code body. code \<noteq> 200 \<longrightarrow> search_try cfg (Response code body) = Inr None)"
    unfolding Let_def
    using a st reverse_lookup_attempts [of search_name entity_type cfg e s, unfolded Let_def]
    by auto
qed

theorem reverse_lookup_aborts_on_exception_witness:
  "reverse_lookup (demo_env remote_down) ''user'' ''Jane Doe'' demo_state
     = (None, demo_state\<lparr>sent := [search_request demo_state user_cfg
                                      (exact_filter user_cfg ''Jane Doe'')]\<rparr>)
   \<and> reverse_lookup (demo_env remote_flaky) ''user'' ''Jane Doe'' demo_state
     = (None, demo_state\<lparr>sent := [search_request demo_state user_cfg
                                      (exact_filter user_cfg ''Jane Doe''),
                                    search_request demo_state user_cfg
                                      (partial_filter user_cfg ''Jane Doe'')]\<rparr>)"
  using reverse_lookup_aborts_on_exception [where e = "demo_env remote_down"
      and entity_type = "''user''" and cfg = user_cfg and search_name = "''Jane Doe''"
      and s = demo_state]
    reverse_lookup_aborts_on_exception [where e = "demo_env remote_flaky"
      and entity_type = "''user''" and cfg = user_cfg and search_name = "''Jane Doe''"
      and s = demo_state]
  by (simp add: run_defs remote_defs)

text \<open>
  C4 as stated fails when the remote fails with an error status: the exact attempt is
  answered with status 500, the partial attempt is made all the same, and its match
  \<^verbatim>\<open>u-2\<close> is returned instead of \<^verbatim>\<open>None\<close>.
\<close>

theorem server_error_counterexample:
  "remote_500_then_match []
       (search_request demo_state user_cfg (exact_filter user_cfg ''Jane'')) = Response 500 None
   \<and> fst (reverse_lookup (demo_env remote_500_then_match) ''user'' ''Jane'' demo_state)
       = Some (JStr ''u-2'')
   \<and> sent (snd (reverse_lookup (demo_env remote_500_then_match) ''user'' ''Jane'' demo_state))
       = [search_request demo_state user_cfg (exact_filter user_cfg ''Jane''),
          search_request demo_state user_cfg (partial_filter user_cfg ''Jane'')]"
  by (simp add: run_defs remote_defs)

section \<open>Round trip: reverse lookup, then lookup by identifier\<close>

lemma map_of_user: "map_of reverse_configs ''user'' = Some user_cfg"
  by (simp add: reverse_configs_def user_cfg_def)

lemma search_try_truthy:
  "search_try cfg r = Inr (Some (entity_id, entity_name)) \<Longrightarrow> truthy entity_id"
  by (auto simp add: search_try_def
      split: http_result.splits if_splits option.splits sum.splits)

lemma cache_store_clock_reads: "clock_reads (cache_store e k name s) = Suc (clock_reads s)"
  by (simp add: cache_store_def now_def save_cache_def Let_def)

lemma lookup_after_store:
  assumes x: "x \<noteq> []"
    and st: "s' = cache_store e (cache_key_of entity_type x) name s0"
    and rt: "fromisoformat e (isoformat e (clock e (clock_reads s0)))
               = Some (Naive (clock e (clock_reads s0)))"
    and im: "clock e (Suc (clock_reads s0)) - clock e (clock_reads s0) < timedelta_hours 176"
  shows "cache_data s' (cache_key_of entity_type x)
           = Some (JObj [(''name'', name),
                         (''timestamp'', JStr (isoformat e (clock e (clock_reads s0))))])
         \<and> entity_lookup e entity_type (Some x) s'
             = (Inr name, s'\<lparr>clock_reads := Suc (clock_reads s')\<rparr>)"
proof -
  let ?entry = "JObj [(''name'', name),
                      (''timestamp'', JStr (isoformat e (clock e (clock_reads s0))))]"
  have cd: "cache_data s' (cache_key_of entity_type x) = Some ?entry"
    by (simp add: st cache_store_cache_data)
  have cr: "clock_reads s' = Suc (clock_reads s0)"
    by (simp add: st cache_store_clock_reads)
  have v: "is_cache_entry_valid e ?entry s'
      = (Inr True, s'\<lparr>clock_reads := Suc (clock_reads s')\<rparr>)"
    using rt im cr
    by (simp add: is_cache_entry_valid_def valid_try_def now_def CACHE_EXPIRY_HOURS_def)
  have "entity_lookup e entity_type (Some x) s'
      = (Inr name, s'\<lparr>clock_reads := Suc (clock_reads s')\<rparr>)"
    using x cd v entity_lookup_valid [of x s' entity_type ?entry e] by simp
  then show ?thesis using cd by simp
qed

text \<open>
  C6. If \<^verbatim>\<open>reverse_lookup('user', name)\<close> returns the identifier \<open>x\<close>, then the entry
  it wrote for \<open>x\<close> holds the display name of the match, and an
  \<^verbatim>\<open>entity_lookup('user', x)\<close> that follows immediately returns that name from the entry:
  the state changes by one clock reading only, so no request is sent. Immediately means
  that less than 176 hours pass between the two clock readings; the library is assumed to
  parse the timestamp it printed.
\<close>

theorem reverse_then_forward_round_trip:
  "reverse_lookup e ''user'' search_name s = (Some (JStr x), s')
   \<and> fromisoformat e (isoformat e (clock e (clock_reads s)))
       = Some (Naive (clock e (clock_reads s)))
   \<and> clock e (Suc (clock_reads s)) - clock e (clock_reads s) < timedelta_hours 176 \<longrightarrow>
   (\<exists>name.
      (let req1 = search_request s user_cfg (exact_filter user_cfg search_name);
           req2 = search_request s user_cfg (partial_filter user_cfg search_name);
           r1 = search_try user_cfg (http_get e (sent s) req1);
           r2 = search_try user_cfg (http_get e (sent s @ [req1]) req2)
       in r1 = Inr (Some (JStr x, name)) \<or> (r1 = Inr None \<and> r2 = Inr (Some (JStr x, name))))
      \<and> cache_data s' (cache_key_of ''user'' x)
          = Some (JObj [(''name'', name),
                        (''timestamp'', JStr (isoformat e (clock e (clock_reads s))))])
      \<and> entity_lookup e ''user'' (Some x) s'
          = (Inr name, s'\<lparr>clock_reads := Suc (clock_reads s')\<rparr>))"
proof
  assume a: "reverse_lookup e ''user'' search_name s = (Some (JStr x), s')
   \<and> fromisoformat e (isoformat e (clock e (clock_reads s)))
       = Some (Naive (clock e (clock_reads s)))
   \<and> clock e (Suc (clock_reads s)) - clock e (clock_reads s) < timedelta_hours 176"
  define req1 where "req1 = search_request s user_cfg (exact_filter user_cfg search_name)"
  define req2 where "req2 = search_request s user_cfg (partial_filter user_cfg search_name)"
  define r1 where "r1 = search_try user_cfg (http_get e (sent s) req1)"
  define r2 where "r2 = search_try user_cfg (http_get e (sent s @ [req1]) req2)"
  have ne: "search_name \<noteq> []"
    using a by (auto simp add: reverse_lookup_def)
  have res: "reverse_lookup e ''user'' search_name s = (case r1 of
           Inl ex \<Rightarrow> (None, s\<lparr>sent := sent s @ [req1]\<rparr>)
         | Inr (Some (entity_id, entity_name)) \<Rightarrow>
             (Some entity_id,
              cache_store e (cache_key_of ''user'' (format_value e entity_id)) entity_name
                (s\<lparr>sent := sent s @ [req1]\<rparr>))
         | Inr None \<Rightarrow>
             (case r2 of
                Inl ex \<Rightarrow> (None, s\<lparr>sent := sent s @ [req1, req2]\<rparr>)
              | Inr (Some (entity_id, entity_name)) \<Rightarrow>
                  (Some entity_id,
                   cache_store e (cache_key_of ''user'' (format_value e entity_id))
                     entity_name (s\<lparr>sent := sent s @ [req1, req2]\<rparr>))
              | Inr None \<Rightarrow> (None, s\<lparr>sent := sent s @ [req1, req2]\<rparr>)))"
    unfolding r1_def r2_def req1_def req2_def
    using ne map_of_user reverse_lookup_attempts [of search_name "''user''" user_cfg e s,
        unfolded Let_def]
    by blast
  obtain name s0 where
    m: "r1 = Inr (Some (JStr x, name)) \<or> (r1 = Inr None \<and> r2 = Inr (Some (JStr x, name)))"
    and st: "s' = cache_store e (cache_key_of ''user'' x) name s0"
    and c0: "clock_reads s0 = clock_reads s"
    using a res
    by (auto simp add: format_value_def split: sum.splits option.splits prod.splits)
  have "truthy (JStr x)"
    using m search_try_truthy [of user_cfg _ "JStr x" name] r1_def r2_def by auto
  then have x: "x \<noteq> []" by simp
  have l: "cache_data s' (cache_key_of ''user'' x)
          = Some (JObj [(''name'', name),
                        (''timestamp'', JStr (isoformat e (clock e (clock_reads s))))])
      \<and> entity_lookup e ''user'' (Some x) s'
          = (Inr name, s'\<lparr>clock_reads := Suc (clock_reads s')\<rparr>)"
    using lookup_after_store [of x s' e "''user''" name s0] x st a c0 by simp
  show "\<exists>name.
      (let req1 = search_request s user_cfg (exact_filter user_cfg search_name);
           req2 = search_request s user_cfg (partial_filter user_cfg search_name);
           r1 = search_try user_cfg (http_get e (sent s) req1);
           r2 = search_try user_cfg (http_get e (sent s @ [req1]) req2)
       in r1 = Inr (Some (JStr x, name)) \<or> (r1 = Inr None \<and> r2 = Inr (Some (JStr x, name))))
      \<and> cache_data s' (cache_key_of ''user'' x)
          = Some (JObj [(''name'', name),
                        (''timestamp'', JStr (isoformat e (clock e (clock_reads s))))])
      \<and> entity_lookup e ''user'' (Some x) s'
          = (Inr name, s'\<lparr>clock_reads := Suc (clock_reads s')\<rparr>)"
    unfolding Let_def
    unfolding req1_def [symmetric] req2_def [symmetric]
    unfolding r1_def [symmetric] r2_def [symmetric]
    using m l by blast
qed


theorem reverse_then_forward_round_trip_witness:
  "fst (reverse_lookup (demo_env remote_users) ''user'' ''Jane Doe'' demo_state)
     = Some (JStr ''u-1'')
   \<and> fst (entity_lookup (demo_env remote_users) ''user'' (Some ''u-1'')
            (snd (reverse_lookup (demo_env remote_users) ''user'' ''Jane Doe'' demo_state)))
       = Inr (JStr ''Jane Doe'')
   \<and> sent (snd (entity_lookup (demo_env remote_users) ''user'' (Some ''u-1'')
            (snd (reverse_lookup (demo_env remote_users) ''user'' ''Jane Doe'' demo_state))))
       = sent (snd (reverse_lookup (demo_env remote_users) ''user'' ''Jane Doe'' demo_state))"
  using reverse_then_forward_round_trip [where e = "demo_env remote_users"
      and search_name = "''Jane Doe''" and s = demo_state and x = "''u-1''"
      and s' = "snd (reverse_lookup (demo_env remote_users) ''user'' ''Jane Doe'' demo_state)"]
  by (simp add: run_defs remote_defs)

end
